theory Spec2Isabelle
  imports Complex_Main
begin

section \<open>Data model\<close>

text \<open>
  The energy-estimation core of the dashboard (\<^verbatim>\<open>energy_savings.py\<close> and
  \<^verbatim>\<open>mpc.py\<close>) works on pandas data frames with a \<^verbatim>\<open>_time\<close> column and one value
  column (\<^verbatim>\<open>_value\<close> on input, \<^verbatim>\<open>energy\<close> on output). A frame is modelled as the
  list of its rows, in row order.

  A pandas \<^verbatim>\<open>Timestamp\<close> is modelled by its integer value: nanoseconds since
  1970-01-01 00:00:00. Python floats are modelled as real numbers: rounding, infinities
  and NaN are not part of the model. The one exception is the section on double-precision
  arithmetic: the order of the results of the three conversions of the metrics aggregator
  depends on the rounding, so they are modelled there with the rounding of doubles.
\<close>

type_synonym timestamp = int

type_synonym series = "(timestamp \<times> real) list"

definition NANOS_PER_HOUR :: int where
  "NANOS_PER_HOUR = 3600000000000"

definition NANOS_PER_DAY :: int where
  "NANOS_PER_DAY = 24 * NANOS_PER_HOUR"

text \<open>\<^verbatim>\<open>t.hour\<close>: the hour of the day, 0 to 23.\<close>

definition hour_of :: "timestamp \<Rightarrow> int" where
  "hour_of t = (t div NANOS_PER_HOUR) mod 24"

text \<open>
  \<^verbatim>\<open>.dt.month\<close>: the calendar month, 1 to 12, of the proleptic Gregorian calendar.
  The day number is shifted to an era of 400 years starting on a 1st of March, where the
  leap day is the last day of a year.
\<close>

definition month_of :: "timestamp \<Rightarrow> nat" where
  "month_of t =
     (let z = t div NANOS_PER_DAY + 719468;
          doe = z mod 146097;
          yoe = (doe - doe div 1460 + doe div 36524 - doe div 146096) div 365;
          doy = doe - (365 * yoe + yoe div 4 - yoe div 100);
          mp = (5 * doy + 2) div 153
      in nat (if mp < 10 then mp + 3 else mp - 9))"

text \<open>\<^verbatim>\<open>d.get(k, default)\<close> on a dictionary.\<close>

definition dict_get :: "('k \<rightharpoonup> 'v) \<Rightarrow> 'k \<Rightarrow> 'v \<Rightarrow> 'v" where
  "dict_get d k dflt = (case d k of None \<Rightarrow> dflt | Some v \<Rightarrow> v)"

text \<open>A keyword argument with a default value: \<open>None\<close> when the caller omits it.\<close>

definition arg_or :: "'a option \<Rightarrow> 'a \<Rightarrow> 'a" where
  "arg_or a dflt = (case a of None \<Rightarrow> dflt | Some v \<Rightarrow> v)"

section \<open>Month-based baseline model (\<^verbatim>\<open>energy_savings.py\<close>)\<close>

definition BASE_RATE_ELECTRIC :: real where
  "BASE_RATE_ELECTRIC = 2.08"

definition BASE_RATE_GAS :: real where
  "BASE_RATE_GAS = 0.34"

definition BASE_RATE :: real where
  "BASE_RATE = BASE_RATE_ELECTRIC + BASE_RATE_GAS"

definition HEATING_RATES :: "nat \<rightharpoonup> real" where
  "HEATING_RATES = [11 \<mapsto> 2.43, 12 \<mapsto> 4.75, 1 \<mapsto> 6.67, 2 \<mapsto> 6.76, 3 \<mapsto> 4.96]"

definition ELECTRIC_RATE :: real where
  "ELECTRIC_RATE = 0.15"

definition GAS_RATE :: real where
  "GAS_RATE = 0.0226"

text \<open>
  The two lambdas applied to the month column: the hourly energy rate in
  \<^verbatim>\<open>calculate_energy_consumption\<close> and the hourly gas energy in
  \<^verbatim>\<open>calculate_all_metrics\<close>.
\<close>

definition baseline_rate :: "nat \<Rightarrow> real" where
  "baseline_rate m = BASE_RATE + dict_get HEATING_RATES m 0"

definition gas_energy :: "nat \<Rightarrow> real" where
  "gas_energy m = BASE_RATE_GAS + dict_get HEATING_RATES m 0"

text \<open>
  \<^verbatim>\<open>EnergyCalculator.calculate_energy_consumption\<close>: one row per row of the indoor
  frame, holding the timestamp and the rate of its month. The outdoor frame is not read.
\<close>

definition EnergyCalculator_calculate_energy_consumption :: "series \<Rightarrow> series \<Rightarrow> series" where
  "EnergyCalculator_calculate_energy_consumption temperature_df outdoor_temp_df =
     map (\<lambda>(t, v). (t, baseline_rate (month_of t))) temperature_df"

definition calculate_total_energy :: "series \<Rightarrow> real" where
  "calculate_total_energy energy_df = sum_list (map snd energy_df)"

definition calculate_co2_emissions :: "real \<Rightarrow> real option \<Rightarrow> real" where
  "calculate_co2_emissions energy_kwh co2_per_kwh = energy_kwh * arg_or co2_per_kwh 0.417"

text \<open>
  A division by zero does not produce a number in Python, so the result is optional:
  \<open>None\<close> stands for the failed division.
\<close>

definition calculate_equivalent_km_driven :: "real \<Rightarrow> real option \<Rightarrow> real option" where
  "calculate_equivalent_km_driven co2_kg kg_per_km =
     (let d = arg_or kg_per_km 0.222 in if d = 0 then None else Some (co2_kg / d))"

text \<open>The locals of \<^verbatim>\<open>calculate_all_metrics\<close> that make up the cost.\<close>

definition electric_energy_kwh :: "series \<Rightarrow> real" where
  "electric_energy_kwh df = real (length df) * BASE_RATE_ELECTRIC"

definition gas_energy_kwh :: "series \<Rightarrow> real" where
  "gas_energy_kwh df = sum_list (map (\<lambda>(t, e). gas_energy (month_of t)) df)"

record metrics =
  total_energy_kwh :: real
  cost_usd :: real
  co2_kg :: real
  equivalent_km :: real
  energy_df :: series

text \<open>
  \<^verbatim>\<open>EnergyCalculator.calculate_all_metrics\<close>. The parameter
  \<^verbatim>\<open>electricity_rate\<close> is accepted and never read.
\<close>

definition calculate_all_metrics :: "series \<Rightarrow> series \<Rightarrow> real option \<Rightarrow> metrics option" where
  "calculate_all_metrics temperature_df outdoor_temp_df electricity_rate =
     (let energy = EnergyCalculator_calculate_energy_consumption temperature_df outdoor_temp_df;
          total = calculate_total_energy energy;
          electric_cost = electric_energy_kwh energy * ELECTRIC_RATE;
          gas_cost = gas_energy_kwh energy * GAS_RATE;
          cost = electric_cost + gas_cost;
          co2 = calculate_co2_emissions total None
      in case calculate_equivalent_km_driven co2 None of
           None \<Rightarrow> None
         | Some km_driven \<Rightarrow>
             Some \<lparr>total_energy_kwh = total, cost_usd = cost, co2_kg = co2,
                   equivalent_km = km_driven, energy_df = energy\<rparr>)"

text \<open>
  \<^verbatim>\<open>pd.date_range(start, end, freq)\<close> for a fixed frequency, given as a number of
  nanoseconds: the instants \<open>start\<close>, \<open>start + freq\<close>, \<open>start + 2 * freq\<close>, ... that
  do not exceed \<open>end\<close>. pandas rejects a zero frequency, which is the result \<open>None\<close>.
\<close>

definition date_range :: "timestamp \<Rightarrow> timestamp \<Rightarrow> nat \<Rightarrow> timestamp list option" where
  "date_range start end freq =
     (if freq = 0 then None
      else if end < start then Some []
      else Some (map (\<lambda>k. start + int k * int freq)
                  [0 ..< Suc (nat ((end - start) div int freq))]))"

text \<open>
  \<^verbatim>\<open>simulate_outdoor_temperature\<close>, the same function in both modules. The defaults are
  \<^verbatim>\<open>base_temp=40\<close>, \<^verbatim>\<open>amplitude=20\<close> and \<^verbatim>\<open>freq='1h'\<close>.
\<close>

definition simulate_outdoor_temperature ::
  "timestamp \<Rightarrow> timestamp \<Rightarrow> real option \<Rightarrow> real option \<Rightarrow> nat option \<Rightarrow> series option" where
  "simulate_outdoor_temperature start_date end_date base_temp amplitude freq =
     (case date_range start_date end_date (arg_or freq (nat NANOS_PER_HOUR)) of
        None \<Rightarrow> None
      | Some dates \<Rightarrow>
          Some (map (\<lambda>t. (t, arg_or base_temp 40
                            + arg_or amplitude 20 * sin (2 * pi * real_of_int (hour_of t - 6) / 24)))
                  dates))"

section \<open>Thermal delta model (\<^verbatim>\<open>mpc.py\<close>)\<close>

definition RBC_C1_HEATING :: real where
  "RBC_C1_HEATING = 0.1958333333"

definition C2_HEATING :: real where
  "C2_HEATING = - 8"

definition MPC_C1_HEATING :: real where
  "MPC_C1_HEATING = 0.1595833333"

definition RBC_C1_COOLING :: real where
  "RBC_C1_COOLING = 0.1266666667"

definition C2_COOLING :: real where
  "C2_COOLING = 6.4"

definition MPC_C1_COOLING :: real where
  "MPC_C1_COOLING = 0.1091666667"

text \<open>
  \<^verbatim>\<open>pd.merge(left, right, on='_time')\<close>: the inner join. Every row of the left frame is
  paired with every row of the right frame that has the same timestamp, in the order of
  the left frame.
\<close>

definition merge_on_time :: "series \<Rightarrow> series \<Rightarrow> (timestamp \<times> real \<times> real) list" where
  "merge_on_time left right =
     concat (map (\<lambda>(t, v_indoor).
                    map (\<lambda>(t', v_outdoor). (t, v_indoor, v_outdoor))
                        (filter (\<lambda>(t', v_outdoor). t' = t) right))
                 left)"

text \<open>The selection of \<^verbatim>\<open>c1\<close> and \<^verbatim>\<open>c2\<close> by the two string arguments.\<close>

definition select_constants :: "string \<Rightarrow> string \<Rightarrow> real \<times> real" where
  "select_constants mode control_type =
     (if mode = ''heating''
      then (if control_type = ''mpc'' then MPC_C1_HEATING else RBC_C1_HEATING, C2_HEATING)
      else (if control_type = ''mpc'' then MPC_C1_COOLING else RBC_C1_COOLING, C2_COOLING))"

text \<open>\<^verbatim>\<open>.clip(lower=...)\<close> on one value.\<close>

definition clip_lower :: "real \<Rightarrow> real \<Rightarrow> real" where
  "clip_lower x lower = (if x < lower then lower else x)"

text \<open>The energy of one merged row: the linear formula, then the clipping.\<close>

definition row_energy :: "real \<Rightarrow> real \<Rightarrow> real \<Rightarrow> real \<Rightarrow> real" where
  "row_energy c1 c2 v_indoor v_outdoor = clip_lower (c1 * (v_indoor - v_outdoor) + c2) 0"

text \<open>
  \<^verbatim>\<open>MPCCalculator.calculate_energy_consumption\<close>, with the defaults
  \<^verbatim>\<open>mode='heating'\<close> and \<^verbatim>\<open>control_type='mpc'\<close>.
\<close>

definition MPCCalculator_calculate_energy_consumption ::
  "series \<Rightarrow> series \<Rightarrow> string option \<Rightarrow> string option \<Rightarrow> series" where
  "MPCCalculator_calculate_energy_consumption temperature_df outdoor_temp_df mode control_type =
     (let merged = merge_on_time temperature_df outdoor_temp_df;
          (c1, c2) = select_constants (arg_or mode ''heating'') (arg_or control_type ''mpc'')
      in map (\<lambda>(t, v_indoor, v_outdoor). (t, row_energy c1 c2 v_indoor v_outdoor)) merged)"

definition calculate_total_energy_savings :: "series \<Rightarrow> series \<Rightarrow> real" where
  "calculate_total_energy_savings mpc_energy_df rbc_energy_df =
     (let mpc_total = sum_list (map snd mpc_energy_df);
          rbc_total = sum_list (map snd rbc_energy_df);
          savings_wh = rbc_total - mpc_total
      in savings_wh / 1000)"






section \<open>Double-precision arithmetic of the metrics aggregator\<close>

text \<open>
  A Python float is an IEEE 754 double: a multiple of a power of two with a significand of
  53 bits, an exponent of at least -1022, below which the subnormal numbers keep the spacing
  \<open>2 powi - 1074\<close>. A literal such as \<^verbatim>\<open>0.15\<close> and the result of every multiplication
  and division is the exact value rounded to the nearest double, a tie going to the double
  with an even significand. \<open>binade x\<close> is the exponent of the doubles around \<open>x\<close>,
  \<open>ulp x\<close> their spacing and \<open>round_double x\<close> the double nearest to \<open>x\<close>. The
  exponent is not bounded from above: overflow to infinity is not modelled.
\<close>

definition binade :: "real \<Rightarrow> int" where
  "binade x = max \<lfloor>log 2 \<bar>x\<bar>\<rfloor> (- 1022)"

definition ulp :: "real \<Rightarrow> real" where
  "ulp x = 2 powi (binade x - 52)"

definition round_half_even :: "real \<Rightarrow> int" where
  "round_half_even q =
     (let n = \<lfloor>q\<rfloor>; r = q - real_of_int n
      in if r < 1 / 2 then n else if 1 / 2 < r then n + 1 else if even n then n else n + 1)"

definition round_double :: "real \<Rightarrow> real" where
  "round_double x = real_of_int (round_half_even (x / ulp x)) * ulp x"

text \<open>
  \<^verbatim>\<open>calculate_cost\<close>, \<^verbatim>\<open>calculate_co2_emissions\<close> and
  \<^verbatim>\<open>calculate_equivalent_km_driven\<close> of \<^verbatim>\<open>EnergyCalculator\<close> on doubles, with
  their defaults \<^verbatim>\<open>0.15\<close>, \<^verbatim>\<open>0.417\<close> and \<^verbatim>\<open>0.222\<close>. A division by zero
  is the result \<open>None\<close>.
\<close>

definition calculate_cost_double :: "real \<Rightarrow> real option \<Rightarrow> real" where
  "calculate_cost_double energy_kwh electricity_rate =
     round_double (energy_kwh * arg_or electricity_rate (round_double 0.15))"

definition calculate_co2_emissions_double :: "real \<Rightarrow> real option \<Rightarrow> real" where
  "calculate_co2_emissions_double energy_kwh co2_per_kwh =
     round_double (energy_kwh * arg_or co2_per_kwh (round_double 0.417))"

definition calculate_equivalent_km_driven_double :: "real \<Rightarrow> real option \<Rightarrow> real option" where
  "calculate_equivalent_km_driven_double co2 kg_per_km =
     (let d = arg_or kg_per_km (round_double 0.222)
      in if d = 0 then None else Some (round_double (co2 / d)))"

section \<open>Frames with and without columns\<close>

text \<open>
  The query layer (\<^verbatim>\<open>InfluxDBHelper.query\<close>) returns \<^verbatim>\<open>pd.DataFrame()\<close>, a frame
  with no columns at all, when a query has no result or fails. Such a frame is empty
  (\<^verbatim>\<open>df.empty\<close> holds), and so is a frame that has the \<^verbatim>\<open>_time\<close> and
  \<^verbatim>\<open>_value\<close> columns and no rows. The two calculators read the \<^verbatim>\<open>_time\<close> column
  first, by \<^verbatim>\<open>df['_time']\<close> and by \<^verbatim>\<open>pd.merge(..., on='_time')\<close>, which raises
  \<^verbatim>\<open>KeyError\<close> on a frame without that column; on a frame with the columns they
  compute the functions of the preceding sections on its rows. The callers in
  \<^verbatim>\<open>app.py\<close> and \<^verbatim>\<open>main.py\<close> test \<^verbatim>\<open>df.empty\<close> before they call a calculator.
\<close>

datatype frame = NoColumns | Columns series

datatype error = KeyError string | ZeroDivisionError

definition frame_empty :: "frame \<Rightarrow> bool" where
  "frame_empty df = (case df of NoColumns \<Rightarrow> True | Columns rows \<Rightarrow> rows = [])"

definition frame_rows :: "frame \<Rightarrow> series" where
  "frame_rows df = (case df of NoColumns \<Rightarrow> [] | Columns rows \<Rightarrow> rows)"

definition EnergyCalculator_calculate_energy_consumption_frame ::
  "frame \<Rightarrow> frame \<Rightarrow> error + series" where
  "EnergyCalculator_calculate_energy_consumption_frame temperature_df outdoor_temp_df =
     (case temperature_df of
        NoColumns \<Rightarrow> Inl (KeyError ''_time'')
      | Columns rows \<Rightarrow>
          Inr (EnergyCalculator_calculate_energy_consumption rows (frame_rows outdoor_temp_df)))"

definition calculate_all_metrics_frame ::
  "frame \<Rightarrow> frame \<Rightarrow> real option \<Rightarrow> error + metrics" where
  "calculate_all_metrics_frame temperature_df outdoor_temp_df electricity_rate =
     (case temperature_df of
        NoColumns \<Rightarrow> Inl (KeyError ''_time'')
      | Columns rows \<Rightarrow>
          (case calculate_all_metrics rows (frame_rows outdoor_temp_df) electricity_rate of
             None \<Rightarrow> Inl ZeroDivisionError
           | Some m \<Rightarrow> Inr m))"

definition MPCCalculator_calculate_energy_consumption_frame ::
  "frame \<Rightarrow> frame \<Rightarrow> string option \<Rightarrow> string option \<Rightarrow> error + series" where
  "MPCCalculator_calculate_energy_consumption_frame temperature_df outdoor_temp_df mode control_type =
     (case temperature_df of
        NoColumns \<Rightarrow> Inl (KeyError ''_time'')
      | Columns indoor \<Rightarrow>
          (case outdoor_temp_df of
             NoColumns \<Rightarrow> Inl (KeyError ''_time'')
           | Columns outdoor \<Rightarrow>
               Inr (MPCCalculator_calculate_energy_consumption indoor outdoor mode control_type)))"

section \<open>The surcharge table of the specification\<close>

text \<open>
  The heating surcharge as the specification tabulates it: defined for the months 11, 12,
  1, 2 and 3, and zero for every other month. It is compared below with the dictionary
  \<^verbatim>\<open>HEATING_RATES\<close> of the code.
\<close>

definition surcharge :: "nat \<Rightarrow> real" where
  "surcharge m =
     (if m = 11 then 2.43 else if m = 12 then 4.75 else if m = 1 then 6.67
      else if m = 2 then 6.76 else if m = 3 then 4.96 else 0)"

section \<open>Sample inputs\<close>


section \<open>Properties of the baseline model\<close>

lemma heating_rates_get: "dict_get HEATING_RATES m 0 = surcharge m"
  by (simp add: dict_get_def HEATING_RATES_def surcharge_def)

lemma baseline_rate_eq: "baseline_rate m = 2.42 + surcharge m"
  by (simp add: baseline_rate_def BASE_RATE_def BASE_RATE_ELECTRIC_def BASE_RATE_GAS_def
      heating_rates_get)


lemma consumption_eq:
  "EnergyCalculator_calculate_energy_consumption df out =
     map (\<lambda>(t, v). (t, 2.42 + surcharge (month_of t))) df"
  by (simp add: EnergyCalculator_calculate_energy_consumption_def baseline_rate_eq)





lemma all_metrics_eq:
  "calculate_all_metrics df out r =
     Some \<lparr>total_energy_kwh = calculate_total_energy (EnergyCalculator_calculate_energy_consumption df out),
           cost_usd = electric_energy_kwh (EnergyCalculator_calculate_energy_consumption df out) * 0.15
                    + gas_energy_kwh (EnergyCalculator_calculate_energy_consumption df out) * 0.0226,
           co2_kg = calculate_total_energy (EnergyCalculator_calculate_energy_consumption df out) * 0.417,
           equivalent_km = calculate_total_energy (EnergyCalculator_calculate_energy_consumption df out) * 0.417 / 0.222,
           energy_df = EnergyCalculator_calculate_energy_consumption df out\<rparr>"
  by (simp add: calculate_all_metrics_def Let_def calculate_equivalent_km_driven_def arg_or_def
      calculate_co2_emissions_def ELECTRIC_RATE_def GAS_RATE_def)

lemma consumption_values_ignored:
  assumes "map fst df = map fst df'"
  shows "EnergyCalculator_calculate_energy_consumption df out =
         EnergyCalculator_calculate_energy_consumption df' out'"
proof -
  have "EnergyCalculator_calculate_energy_consumption d x =
        map (\<lambda>t. (t, baseline_rate (month_of t))) (map fst d)" for d x
    by (simp add: EnergyCalculator_calculate_energy_consumption_def comp_def case_prod_unfold)
  with assms show ?thesis by (simp only:)
qed

text \<open>
  Claim C2. The baseline model produces one energy sample per input row, with the same
  timestamp and the value 2.42 plus the surcharge of the timestamp's month; the rate of
  January is 9.09 and the rate of July is 2.42; the temperature values and the outdoor
  frame do not influence the result.
\<close>

theorem baseline_energy_per_timestamp:
  "EnergyCalculator_calculate_energy_consumption df out =
     map (\<lambda>(t, v). (t, 2.42 + surcharge (month_of t))) df
   \<and> map fst (EnergyCalculator_calculate_energy_consumption df out) = map fst df
   \<and> baseline_rate 1 = 9.09 \<and> baseline_rate 7 = 2.42
   \<and> (map fst df = map fst df' \<longrightarrow>
        EnergyCalculator_calculate_energy_consumption df out =
        EnergyCalculator_calculate_energy_consumption df' out')"
proof (intro conjI impI)
  show "EnergyCalculator_calculate_energy_consumption df out =
     map (\<lambda>(t, v). (t, 2.42 + surcharge (month_of t))) df"
    by (rule consumption_eq)
  show "map fst (EnergyCalculator_calculate_energy_consumption df out) = map fst df"
    by (simp add: EnergyCalculator_calculate_energy_consumption_def comp_def case_prod_unfold)
  show "baseline_rate 1 = 9.09" and "baseline_rate 7 = 2.42"
    by (simp_all add: baseline_rate_eq surcharge_def)
  show "EnergyCalculator_calculate_energy_consumption df out =
        EnergyCalculator_calculate_energy_consumption df' out'" if "map fst df = map fst df'"
    using that by (rule consumption_values_ignored)
qed

theorem baseline_energy_per_timestamp_witness:
  "map fst [(0, 68), (NANOS_PER_HOUR, 70 :: real)] = map fst [(0, 10), (NANOS_PER_HOUR, 20 :: real)]
   \<and> EnergyCalculator_calculate_energy_consumption [(0, 68), (NANOS_PER_HOUR, 70)] [] =
       EnergyCalculator_calculate_energy_consumption [(0, 10), (NANOS_PER_HOUR, 20)] [(0, 5)]
   \<and> EnergyCalculator_calculate_energy_consumption [(0, 68), (NANOS_PER_HOUR, 70)] [] =
       [(0, 9.09), (NANOS_PER_HOUR, 9.09)]"
proof -
  have m: "month_of 0 = 1" "month_of NANOS_PER_HOUR = 1"
    unfolding month_of_def NANOS_PER_DAY_def NANOS_PER_HOUR_def Let_def by simp_all
  show ?thesis
    using baseline_energy_per_timestamp
      [of "[(0, 68), (NANOS_PER_HOUR, 70)]" "[]" "[(0, 10), (NANOS_PER_HOUR, 20)]" "[(0, 5)]"]
    by (auto simp: m surcharge_def)
qed


section \<open>The calendar month of a timestamp\<close>




text \<open>
  The month of some days, counted from 1970-01-01: the ends of the months of 1970, the
  leap day 2000-02-29 (day 11016), the last of February and the first of March of the
  common years 2100 and 1900, and the last days of 1969.
\<close>

lemma month_of_examples:
  "map (\<lambda>d. month_of (d * NANOS_PER_DAY + 5))
     [0, 30, 31, 58, 59, 89, 90, 119, 120, 150, 151, 180, 181, 211, 212, 242, 243, 272, 273,
      303, 304, 333, 334, 364, 365, 11016, 11017, 47540, 47541, - 25509, - 25508, - 1, - 31, - 32]
   = [1, 1, 2, 2, 3, 3, 4, 4, 5, 5, 6, 6, 7, 7, 8, 8, 9, 9, 10,
      10, 11, 11, 12, 12, 1, 2, 3, 2, 3, 2, 3, 12, 12, 11]"
  by code_simp

section \<open>Cost of the baseline model\<close>







section \<open>The inner join on the timestamp\<close>

lemma merge_on_time_Nil [simp]: "merge_on_time [] right = []"
  by (simp add: merge_on_time_def)

lemma merge_on_time_Cons:
  "merge_on_time ((t, vi) # left) right =
     map (\<lambda>(t', vo). (t, vi, vo)) (filter (\<lambda>(t', vo). t' = t) right) @ merge_on_time left right"
  by (simp add: merge_on_time_def)

lemma merge_on_time_Nil2 [simp]: "merge_on_time left [] = []"
  by (induction left) (auto simp: merge_on_time_Cons)

lemma set_merge_on_time:
  "(t, vi, vo) \<in> set (merge_on_time left right) \<longleftrightarrow> (t, vi) \<in> set left \<and> (t, vo) \<in> set right"
  by (induction left) (auto simp: merge_on_time_Cons)

lemma fst_set_merge_on_time:
  "fst ` set (merge_on_time left right) = fst ` set left \<inter> fst ` set right"
proof (rule set_eqI)
  fix t
  have "t \<in> fst ` set (merge_on_time left right) \<longleftrightarrow>
        (\<exists>vi vo. (t, vi, vo) \<in> set (merge_on_time left right))"
    by force
  also have "\<dots> \<longleftrightarrow> (\<exists>vi. (t, vi) \<in> set left) \<and> (\<exists>vo. (t, vo) \<in> set right)"
    by (auto simp: set_merge_on_time)
  also have "\<dots> \<longleftrightarrow> t \<in> fst ` set left \<inter> fst ` set right"
    by force
  finally show "t \<in> fst ` set (merge_on_time left right) \<longleftrightarrow>
                t \<in> fst ` set left \<inter> fst ` set right" .
qed

lemma filter_time_distinct:
  "distinct (map fst right) \<Longrightarrow>
   filter (\<lambda>(t', vo). t' = t) right =
     (case map_of right t of None \<Rightarrow> [] | Some vo \<Rightarrow> [(t, vo :: real)])"
proof (induction right)
  case Nil
  show ?case by simp
next
  case (Cons a right)
  obtain t' vo where a: "a = (t', vo)" by (cases a)
  show ?case
  proof (cases "t' = t")
    case True
    with Cons.prems a have "t \<notin> fst ` set right" by simp
    then have "filter (\<lambda>(t', vo). t' = t) right = []"
      by (force simp: filter_empty_conv)
    with True a show ?thesis by simp
  next
    case False
    with Cons a show ?thesis by simp
  qed
qed

lemma merge_on_time_distinct_right:
  assumes "distinct (map fst right)"
  shows "merge_on_time left right =
     map (\<lambda>(t, vi). (t, vi, the (map_of right t))) (filter (\<lambda>(t, vi). t \<in> fst ` set right) left)"
proof (induction left)
  case Nil
  show ?case by simp
next
  case (Cons a left)
  obtain t vi where a: "a = (t, vi)" by (cases a)
  show ?case
  proof (cases "map_of right t")
    case None
    then have "t \<notin> fst ` set right" by (simp add: map_of_eq_None_iff)
    with None Cons show ?thesis
      by (simp add: a merge_on_time_Cons filter_time_distinct [OF assms])
  next
    case (Some vo)
    then have "t \<in> fst ` set right" by (metis map_of_eq_None_iff option.distinct(1))
    with Some Cons show ?thesis
      by (simp add: a merge_on_time_Cons filter_time_distinct [OF assms])
  qed
qed

lemma merge_on_time_distinct:
  assumes "distinct (map fst left)" and "distinct (map fst right)"
  shows "distinct (map fst (merge_on_time left right))"
proof -
  have "map fst (merge_on_time left right) =
        filter (\<lambda>t. t \<in> fst ` set right) (map fst left)"
    by (simp add: merge_on_time_distinct_right [OF assms(2)] filter_map comp_def case_prod_unfold)
  with assms(1) show ?thesis by simp
qed


section \<open>Properties of the thermal delta model\<close>

lemma row_energy_max: "row_energy c1 c2 vi vo = max 0 (c1 * (vi - vo) + c2)"
  by (simp add: row_energy_def clip_lower_def max_def)

lemma thermal_consumption_eq:
  assumes "select_constants (arg_or mode ''heating'') (arg_or control_type ''mpc'') = (c1, c2)"
  shows "MPCCalculator_calculate_energy_consumption indoor outdoor mode control_type =
     map (\<lambda>(t, vi, vo). (t, max 0 (c1 * (vi - vo) + c2))) (merge_on_time indoor outdoor)"
  by (simp add: MPCCalculator_calculate_energy_consumption_def assms row_energy_max)

lemma select_constants_table:
  "select_constants ''heating'' ''rbc'' = (0.1958333333, - 8)"
  "select_constants ''heating'' ''mpc'' = (0.1595833333, - 8)"
  "select_constants ''cooling'' ''rbc'' = (0.1266666667, 6.4)"
  "select_constants ''cooling'' ''mpc'' = (0.1091666667, 6.4)"
  by (simp_all add: select_constants_def RBC_C1_HEATING_def MPC_C1_HEATING_def C2_HEATING_def
      RBC_C1_COOLING_def MPC_C1_COOLING_def C2_COOLING_def)

text \<open>
  Claim C1, as amended. For indoor and outdoor series (a series has unique timestamps),
  the thermal model's output has exactly one sample per timestamp present in both inputs,
  samples without a partner being dropped, and each energy value is
  \<open>max 0 (C1 * (T_indoor - T_outdoor) + C2)\<close>, hence never negative. The coefficients
  are those of the code: heating/RBC (0.1958333333, -8), heating/MPC (0.1595833333, -8),
  cooling/RBC (0.1266666667, 6.4), cooling/MPC (0.1091666667, 6.4). The statements that do
  not speak of "exactly one" hold for frames with repeated timestamps as well.
\<close>

theorem thermal_energy_consumption:
  fixes indoor outdoor :: series
  assumes "select_constants mode control_type = (c1, c2)"
  shows "let out = MPCCalculator_calculate_energy_consumption indoor outdoor
                     (Some mode) (Some control_type)
    in fst ` set out = fst ` set indoor \<inter> fst ` set outdoor
     \<and> (\<forall>t vi vo. (t, vi) \<in> set indoor \<and> (t, vo) \<in> set outdoor \<longrightarrow>
            (t, max 0 (c1 * (vi - vo) + c2)) \<in> set out)
     \<and> (\<forall>(t, e) \<in> set out. 0 \<le> e \<and>
            (\<exists>vi vo. (t, vi) \<in> set indoor \<and> (t, vo) \<in> set outdoor
               \<and> e = max 0 (c1 * (vi - vo) + c2)))
     \<and> (distinct (map fst indoor) \<and> distinct (map fst outdoor) \<longrightarrow>
          distinct (map fst out)
          \<and> out = map (\<lambda>(t, vi). (t, max 0 (c1 * (vi - the (map_of outdoor t)) + c2)))
                      (filter (\<lambda>(t, vi). t \<in> fst ` set outdoor) indoor))
     \<and> select_constants ''heating'' ''rbc'' = (0.1958333333, - 8)
     \<and> select_constants ''heating'' ''mpc'' = (0.1595833333, - 8)
     \<and> select_constants ''cooling'' ''rbc'' = (0.1266666667, 6.4)
     \<and> select_constants ''cooling'' ''mpc'' = (0.1091666667, 6.4)"
proof -
  define out where
    "out = MPCCalculator_calculate_energy_consumption indoor outdoor (Some mode) (Some control_type)"
  let ?f = "\<lambda>(t, vi, vo). (t, max 0 (c1 * (vi - vo) + c2))"
  have out: "out = map ?f (merge_on_time indoor outdoor)"
    unfolding out_def by (rule thermal_consumption_eq) (simp add: arg_or_def assms)
  have fst_out: "map fst out = map fst (merge_on_time indoor outdoor)"
    by (simp add: out comp_def case_prod_unfold)
  have p1: "fst ` set out = fst ` set indoor \<inter> fst ` set outdoor"
    using fst_out fst_set_merge_on_time [of indoor outdoor] by (metis set_map)
  have p2: "(t, max 0 (c1 * (vi - vo) + c2)) \<in> set out"
    if "(t, vi) \<in> set indoor \<and> (t, vo) \<in> set outdoor" for t vi vo
  proof -
    from that have "(t, vi, vo) \<in> set (merge_on_time indoor outdoor)"
      by (simp add: set_merge_on_time)
    then have "?f (t, vi, vo) \<in> set out"
      unfolding out set_map by (rule imageI)
    then show ?thesis by simp
  qed
  have p3: "\<forall>(t, e) \<in> set out. 0 \<le> e \<and>
            (\<exists>vi vo. (t, vi) \<in> set indoor \<and> (t, vo) \<in> set outdoor
               \<and> e = max 0 (c1 * (vi - vo) + c2))"
    by (fastforce simp: out set_merge_on_time)
  have p4: "distinct (map fst out)
          \<and> out = map (\<lambda>(t, vi). (t, max 0 (c1 * (vi - the (map_of outdoor t)) + c2)))
                      (filter (\<lambda>(t, vi). t \<in> fst ` set outdoor) indoor)"
    if d: "distinct (map fst indoor) \<and> distinct (map fst outdoor)"
  proof
    show "distinct (map fst out)"
      using d by (simp only: fst_out merge_on_time_distinct)
    have "merge_on_time indoor outdoor =
        map (\<lambda>(t, vi). (t, vi, the (map_of outdoor t)))
            (filter (\<lambda>(t, vi). t \<in> fst ` set outdoor) indoor)"
      using d by (intro merge_on_time_distinct_right) simp
    then show "out = map (\<lambda>(t, vi). (t, max 0 (c1 * (vi - the (map_of outdoor t)) + c2)))
                      (filter (\<lambda>(t, vi). t \<in> fst ` set outdoor) indoor)"
      by (simp add: out comp_def case_prod_unfold)
  qed
  from p1 p2 p3 p4 select_constants_table show ?thesis
    unfolding Let_def out_def [symmetric] by blast
qed

theorem thermal_energy_consumption_witness:
  "select_constants ''heating'' ''rbc'' = (0.1958333333, - 8)
   \<and> distinct (map fst [(0, 100), (NANOS_PER_HOUR, 70 :: real)])
   \<and> distinct (map fst [(0, 0), (2 * NANOS_PER_HOUR, 40 :: real)])
   \<and> MPCCalculator_calculate_energy_consumption
         [(0, 100), (NANOS_PER_HOUR, 70)] [(0, 0), (2 * NANOS_PER_HOUR, 40)]
         (Some ''heating'') (Some ''rbc'') = [(0, 11.58333333)]"
proof -
  have c: "select_constants ''heating'' ''rbc'' = (0.1958333333, - 8)"
    by (rule select_constants_table)
  have d: "distinct (map fst [(0, 100), (NANOS_PER_HOUR, 70 :: real)])"
          "distinct (map fst [(0, 0), (2 * NANOS_PER_HOUR, 40 :: real)])"
    by (simp_all add: NANOS_PER_HOUR_def)
  have "MPCCalculator_calculate_energy_consumption
         [(0, 100), (NANOS_PER_HOUR, 70)] [(0, 0), (2 * NANOS_PER_HOUR, 40)]
         (Some ''heating'') (Some ''rbc'') =
        map (\<lambda>(t, vi). (t, max 0 (0.1958333333 * (vi - the (map_of [(0, 0), (2 * NANOS_PER_HOUR, 40)] t)) + - 8)))
            (filter (\<lambda>(t, vi). t \<in> fst ` set [(0, 0), (2 * NANOS_PER_HOUR, 40 :: real)])
               [(0, 100), (NANOS_PER_HOUR, 70)])"
    using thermal_energy_consumption [OF c, of "[(0, 100), (NANOS_PER_HOUR, 70)]"
        "[(0, 0), (2 * NANOS_PER_HOUR, 40)]"] d
    unfolding Let_def by blast
  also have "\<dots> = [(0, 11.58333333)]"
    by (simp add: NANOS_PER_HOUR_def)
  finally show ?thesis using c d by simp
qed

text \<open>
  The coefficients rounded to eight decimals, 0.19583333 for heating/RBC, do not give the
  energy the code computes: at 100 degrees indoors and 0 degrees outdoors the code returns
  11.58333333, the rounded coefficient 11.583333. And a frame in which a timestamp occurs
  twice, as the concatenation of several query tables can produce, yields two samples for
  that timestamp.
\<close>

theorem thermal_coefficients_counterexample:
  "MPCCalculator_calculate_energy_consumption [(0, 100)] [(0, 0)] (Some ''heating'') (Some ''rbc'')
     = [(0, 11.58333333)]
   \<and> MPCCalculator_calculate_energy_consumption [(0, 100)] [(0, 0)] (Some ''heating'') (Some ''rbc'')
     \<noteq> [(0, max 0 (0.19583333 * (100 - 0) + - 8))]
   \<and> MPCCalculator_calculate_energy_consumption [(0, 30), (0, 32)] [(0, 10)]
       (Some ''cooling'') (Some ''mpc'')
     = [(0, 8.583333334), (0, 8.8016666674)]"
  by (simp add: MPCCalculator_calculate_energy_consumption_def merge_on_time_def arg_or_def
      select_constants_table row_energy_max)

text \<open>
  Claim C4. \<^verbatim>\<open>calculate_total_energy_savings\<close> returns the sum of the RBC energy
  values minus the sum of the MPC energy values, divided by 1000.
\<close>

theorem total_energy_savings_formula:
  "calculate_total_energy_savings mpc_energy_df rbc_energy_df =
     (sum_list (map snd rbc_energy_df) - sum_list (map snd mpc_energy_df)) / 1000"
  by (simp add: calculate_total_energy_savings_def)

text \<open>
  Claim C5, as amended. The thermal model never fails on its mode or its control strategy:
  every mode other than \<^verbatim>\<open>'heating'\<close> is computed as cooling and every control
  strategy other than \<^verbatim>\<open>'mpc'\<close> is computed as RBC.
\<close>

theorem unknown_mode_defaults:
  "(mode \<noteq> ''heating'' \<longrightarrow>
      MPCCalculator_calculate_energy_consumption indoor outdoor (Some mode) control_type =
      MPCCalculator_calculate_energy_consumption indoor outdoor (Some ''cooling'') control_type)
   \<and> (strategy \<noteq> ''mpc'' \<longrightarrow>
      MPCCalculator_calculate_energy_consumption indoor outdoor mode' (Some strategy) =
      MPCCalculator_calculate_energy_consumption indoor outdoor mode' (Some ''rbc''))"
proof (intro conjI impI)
  assume "mode \<noteq> ''heating''"
  then have "select_constants mode c = select_constants ''cooling'' c" for c
    by (simp add: select_constants_def)
  then show "MPCCalculator_calculate_energy_consumption indoor outdoor (Some mode) control_type =
      MPCCalculator_calculate_energy_consumption indoor outdoor (Some ''cooling'') control_type"
    by (simp add: MPCCalculator_calculate_energy_consumption_def arg_or_def)
next
  assume "strategy \<noteq> ''mpc''"
  then have "select_constants m strategy = select_constants m ''rbc''" for m
    by (simp add: select_constants_def)
  then show "MPCCalculator_calculate_energy_consumption indoor outdoor mode' (Some strategy) =
      MPCCalculator_calculate_energy_consumption indoor outdoor mode' (Some ''rbc'')"
    by (simp add: MPCCalculator_calculate_energy_consumption_def arg_or_def)
qed

theorem unknown_mode_defaults_witness:
  "''auto'' \<noteq> ''heating'' \<and> ''pid'' \<noteq> ''mpc''
   \<and> MPCCalculator_calculate_energy_consumption [(0, 30)] [(0, 10)] (Some ''auto'') (Some ''mpc'') =
       MPCCalculator_calculate_energy_consumption [(0, 30)] [(0, 10)] (Some ''cooling'') (Some ''mpc'')
   \<and> MPCCalculator_calculate_energy_consumption [(0, 30)] [(0, 10)] (Some ''heating'') (Some ''pid'') =
       MPCCalculator_calculate_energy_consumption [(0, 30)] [(0, 10)] (Some ''heating'') (Some ''rbc'')"
  using unknown_mode_defaults [of "''auto''" "[(0, 30)]" "[(0, 10)]" "Some ''mpc''" "''pid''"
      "Some ''heating''"]
  by simp

text \<open>
  The mode \<^verbatim>\<open>'auto'\<close> and the strategy \<^verbatim>\<open>'pid'\<close> are outside the enumerated
  variants, and the model returns the cooling/RBC energy for them instead of failing.
\<close>

theorem unknown_mode_counterexample:
  "''auto'' \<notin> {''heating'', ''cooling''} \<and> ''pid'' \<notin> {''mpc'', ''rbc''}
   \<and> MPCCalculator_calculate_energy_consumption [(0, 30)] [(0, 10)] (Some ''auto'') (Some ''pid'')
       = [(0, 8.933333334)]
   \<and> MPCCalculator_calculate_energy_consumption [(0, 30)] [(0, 10)] (Some ''auto'') (Some ''pid'')
       = MPCCalculator_calculate_energy_consumption [(0, 30)] [(0, 10)] (Some ''cooling'') (Some ''rbc'')"
  by (simp add: MPCCalculator_calculate_energy_consumption_def merge_on_time_def arg_or_def
      select_constants_def RBC_C1_COOLING_def C2_COOLING_def row_energy_max)

lemma merge_on_time_disjoint:
  assumes "fst ` set left \<inter> fst ` set right = {}"
  shows "merge_on_time left right = []"
proof -
  have "fst ` set (merge_on_time left right) = {}"
    using assms by (simp only: fst_set_merge_on_time)
  then show ?thesis by simp
qed

lemma empty_rows_give_empty_output:
  "EnergyCalculator_calculate_energy_consumption [] outdoor = []"
  "calculate_all_metrics [] outdoor rate =
       Some \<lparr>total_energy_kwh = 0, cost_usd = 0, co2_kg = 0, equivalent_km = 0, energy_df = []\<rparr>"
  "MPCCalculator_calculate_energy_consumption [] outdoor mode control_type = []"
  "MPCCalculator_calculate_energy_consumption indoor [] mode control_type = []"
  by (simp_all add: all_metrics_eq EnergyCalculator_calculate_energy_consumption_def
      calculate_total_energy_def electric_energy_kwh_def gas_energy_kwh_def
      MPCCalculator_calculate_energy_consumption_def case_prod_unfold)

lemma disjoint_rows_give_empty_output:
  assumes "fst ` set indoor \<inter> fst ` set outdoor = {}"
  shows "MPCCalculator_calculate_energy_consumption indoor outdoor mode control_type = []"
  using merge_on_time_disjoint [OF assms]
  by (simp add: MPCCalculator_calculate_energy_consumption_def case_prod_unfold)

text \<open>
  Claim C6, as amended. On an empty frame that has the \<^verbatim>\<open>_time\<close> and \<^verbatim>\<open>_value\<close>
  columns the baseline model returns an empty energy frame and
  \<^verbatim>\<open>calculate_all_metrics\<close> returns, without failing, a total energy, cost, CO2 mass
  and distance of zero; the thermal model returns an empty energy frame when either input
  is such a frame or when the inputs share no timestamp. On the empty frame without
  columns both calculators fail with \<^verbatim>\<open>KeyError\<close> on \<^verbatim>\<open>_time\<close>; the baseline model
  never reads its outdoor frame, so only its indoor frame matters.
\<close>

theorem empty_frames:
  "EnergyCalculator_calculate_energy_consumption_frame (Columns []) outdoor_df = Inr []
   \<and> calculate_all_metrics_frame (Columns []) outdoor_df rate =
       Inr \<lparr>total_energy_kwh = 0, cost_usd = 0, co2_kg = 0, equivalent_km = 0, energy_df = []\<rparr>
   \<and> MPCCalculator_calculate_energy_consumption_frame (Columns []) (Columns outdoor)
         mode control_type = Inr []
   \<and> MPCCalculator_calculate_energy_consumption_frame (Columns indoor) (Columns [])
         mode control_type = Inr []
   \<and> (fst ` set indoor \<inter> fst ` set outdoor = {} \<longrightarrow>
        MPCCalculator_calculate_energy_consumption_frame (Columns indoor) (Columns outdoor)
          mode control_type = Inr [])
   \<and> EnergyCalculator_calculate_energy_consumption_frame NoColumns outdoor_df
       = Inl (KeyError ''_time'')
   \<and> calculate_all_metrics_frame NoColumns outdoor_df rate = Inl (KeyError ''_time'')
   \<and> MPCCalculator_calculate_energy_consumption_frame NoColumns outdoor_df mode control_type
       = Inl (KeyError ''_time'')
   \<and> MPCCalculator_calculate_energy_consumption_frame indoor_df NoColumns mode control_type
       = Inl (KeyError ''_time'')"
proof -
  have disj: "MPCCalculator_calculate_energy_consumption_frame (Columns indoor) (Columns outdoor)
          mode control_type = Inr []"
    if "fst ` set indoor \<inter> fst ` set outdoor = {}"
    using disjoint_rows_give_empty_output [OF that]
    by (simp add: MPCCalculator_calculate_energy_consumption_frame_def)
  have last: "MPCCalculator_calculate_energy_consumption_frame indoor_df NoColumns mode control_type
       = Inl (KeyError ''_time'')"
    by (cases indoor_df) (simp_all add: MPCCalculator_calculate_energy_consumption_frame_def)
  have rest:
    "EnergyCalculator_calculate_energy_consumption_frame (Columns []) outdoor_df = Inr []"
    "calculate_all_metrics_frame (Columns []) outdoor_df rate =
       Inr \<lparr>total_energy_kwh = 0, cost_usd = 0, co2_kg = 0, equivalent_km = 0, energy_df = []\<rparr>"
    "MPCCalculator_calculate_energy_consumption_frame (Columns []) (Columns outdoor)
         mode control_type = Inr []"
    "MPCCalculator_calculate_energy_consumption_frame (Columns indoor) (Columns [])
         mode control_type = Inr []"
    "EnergyCalculator_calculate_energy_consumption_frame NoColumns outdoor_df
       = Inl (KeyError ''_time'')"
    "calculate_all_metrics_frame NoColumns outdoor_df rate = Inl (KeyError ''_time'')"
    "MPCCalculator_calculate_energy_consumption_frame NoColumns outdoor_df mode control_type
       = Inl (KeyError ''_time'')"
    by (simp_all add: EnergyCalculator_calculate_energy_consumption_frame_def
        calculate_all_metrics_frame_def MPCCalculator_calculate_energy_consumption_frame_def
        empty_rows_give_empty_output)
  from disj last rest show ?thesis by blast
qed

theorem empty_frames_witness:
  "fst ` set [(0, 70 :: real)] \<inter> fst ` set [(NANOS_PER_HOUR, 40 :: real)] = {}
   \<and> MPCCalculator_calculate_energy_consumption_frame (Columns [(0, 70)])
       (Columns [(NANOS_PER_HOUR, 40)]) (Some ''cooling'') (Some ''rbc'') = Inr []"
  using empty_frames [of "Columns []" None "[(NANOS_PER_HOUR, 40)]" "Some ''cooling''"
      "Some ''rbc''" "[(0, 70)]" NoColumns]
  by (simp add: NANOS_PER_HOUR_def)

text \<open>
  The frame \<^verbatim>\<open>pd.DataFrame()\<close> is empty, and on it none of the three functions
  returns an empty energy frame or zero metrics: each fails with \<^verbatim>\<open>KeyError\<close>.
\<close>

theorem column_less_frame_counterexample:
  "frame_empty NoColumns
   \<and> EnergyCalculator_calculate_energy_consumption_frame NoColumns NoColumns
       = Inl (KeyError ''_time'')
   \<and> calculate_all_metrics_frame NoColumns NoColumns None = Inl (KeyError ''_time'')
   \<and> MPCCalculator_calculate_energy_consumption_frame NoColumns NoColumns None None
       = Inl (KeyError ''_time'')"
  by (simp add: frame_empty_def EnergyCalculator_calculate_energy_consumption_frame_def
      calculate_all_metrics_frame_def MPCCalculator_calculate_energy_consumption_frame_def)


section \<open>Rounding to the nearest double\<close>

lemma powr_powi: "(2::real) powr real_of_int k = 2 powi k"
  by (simp add: powr_real_of_int power_int_def power_one_over inverse_eq_divide)

lemma floor_log2_bounds:
  assumes "0 < x"
  shows "2 powi \<lfloor>log 2 x\<rfloor> \<le> x" and "x < 2 powi (\<lfloor>log 2 x\<rfloor> + 1)"
proof -
  have "2 powr real_of_int \<lfloor>log 2 x\<rfloor> \<le> x \<and> x < 2 powr real_of_int (\<lfloor>log 2 x\<rfloor> + 1)"
    using floor_log_eq_powr_iff [of x 2 "\<lfloor>log 2 x\<rfloor>"] assms by simp
  then show "2 powi \<lfloor>log 2 x\<rfloor> \<le> x" and "x < 2 powi (\<lfloor>log 2 x\<rfloor> + 1)"
    by (simp_all only: powr_powi)
qed

lemma binade_upper:
  assumes "0 < x"
  shows "x < 2 powi (binade x + 1)"
proof -
  have "x < 2 powi (\<lfloor>log 2 x\<rfloor> + 1)" using assms by (rule floor_log2_bounds)
  also have "\<dots> \<le> 2 powi (binade x + 1)"
    using assms by (intro power_int_increasing) (simp_all add: binade_def)
  finally show ?thesis .
qed

lemma binade_lower:
  assumes "0 < x" and "- 1022 < binade x"
  shows "2 powi binade x \<le> x"
proof -
  have "binade x = \<lfloor>log 2 x\<rfloor>" using assms by (simp add: binade_def max_def split: if_splits)
  then show ?thesis using floor_log2_bounds(1) [OF assms(1)] by simp
qed

lemma binade_eqI:
  assumes "2 powi k \<le> x" and "x < 2 powi (k + 1)" and "- 1022 \<le> k"
  shows "binade x = k"
proof -
  have "(0::real) < 2 powi k" by simp
  with assms(1) have pos: "0 < x" by linarith
  have "2 powr real_of_int k \<le> x \<and> x < 2 powr real_of_int (k + 1)"
    using assms by (simp only: powr_powi)
  then have "\<lfloor>log 2 x\<rfloor> = k"
    using floor_log_eq_powr_iff [of x 2 k] pos by simp
  then show ?thesis using assms(3) pos by (simp add: binade_def)
qed

lemma binade_mono:
  assumes "0 < x" and "x \<le> y"
  shows "binade x \<le> binade y"
proof -
  have "log 2 x \<le> log 2 y" using assms by simp
  then have "\<lfloor>log 2 x\<rfloor> \<le> \<lfloor>log 2 y\<rfloor>" by (rule floor_mono)
  then show ?thesis using assms by (simp add: binade_def)
qed

lemma round_half_even_cases:
  "round_half_even q = \<lfloor>q\<rfloor> \<or> round_half_even q = \<lfloor>q\<rfloor> + 1"
  by (simp add: round_half_even_def Let_def)

lemma round_half_even_of_int [simp]: "round_half_even (real_of_int n) = n"
  by (simp add: round_half_even_def Let_def)

lemma round_half_even_mono:
  assumes "q \<le> q'"
  shows "round_half_even q \<le> round_half_even q'"
proof (cases "\<lfloor>q\<rfloor> = \<lfloor>q'\<rfloor>")
  case True
  have "q - real_of_int \<lfloor>q\<rfloor> \<le> q' - real_of_int \<lfloor>q'\<rfloor>" using assms True by simp
  then show ?thesis
    using True by (auto simp: round_half_even_def Let_def)
next
  case False
  have "\<lfloor>q\<rfloor> \<le> \<lfloor>q'\<rfloor>" using assms by (rule floor_mono)
  with False have "\<lfloor>q\<rfloor> + 1 \<le> \<lfloor>q'\<rfloor>" by simp
  moreover have "round_half_even q \<le> \<lfloor>q\<rfloor> + 1"
    using round_half_even_cases [of q] by auto
  moreover have "\<lfloor>q'\<rfloor> \<le> round_half_even q'"
    using round_half_even_cases [of q'] by auto
  ultimately show ?thesis by linarith
qed

lemma ulp_pos: "0 < ulp x"
  by (simp add: ulp_def)

lemma ulp_scale: "2 powi k / ulp x = 2 powi (k - binade x + 52)"
proof -
  have "2 powi k / ulp x = (2::real) powi (k - (binade x - 52))"
    unfolding ulp_def by (rule power_int_diff [symmetric]) simp
  then show ?thesis by (simp add: algebra_simps)
qed

lemma round_double_0 [simp]: "round_double 0 = 0"
  using round_half_even_of_int [of 0] by (simp add: round_double_def)

lemma round_double_nonneg:
  assumes "0 \<le> x"
  shows "0 \<le> round_double x"
proof -
  have "0 \<le> x / ulp x" using assms ulp_pos [of x] by simp
  then have "round_half_even 0 \<le> round_half_even (x / ulp x)"
    by (rule round_half_even_mono)
  then have "0 \<le> round_half_even (x / ulp x)"
    using round_half_even_of_int [of 0] by simp
  then show ?thesis using ulp_pos [of x] by (simp add: round_double_def)
qed

lemma round_double_lower:
  assumes "0 < x" and "- 1022 < binade x"
  shows "2 powi binade x \<le> round_double x"
proof -
  have "2 powi binade x \<le> x" using assms by (rule binade_lower)
  then have "2 powi binade x / ulp x \<le> x / ulp x"
    using ulp_pos [of x] by (simp add: divide_right_mono)
  then have "real_of_int (2 ^ 52) \<le> x / ulp x"
    by (simp add: ulp_scale)
  then have "round_half_even (real_of_int (2 ^ 52)) \<le> round_half_even (x / ulp x)"
    by (rule round_half_even_mono)
  then have "2 ^ 52 \<le> round_half_even (x / ulp x)"
    by (simp only: round_half_even_of_int)
  then have "real_of_int (2 ^ 52) \<le> real_of_int (round_half_even (x / ulp x))"
    by (simp only: of_int_le_iff)
  then have "real_of_int (2 ^ 52) * ulp x \<le> round_double x"
    unfolding round_double_def using ulp_pos [of x] by (simp only: mult_le_cancel_right_pos)
  moreover have "real_of_int (2 ^ 52) * ulp x = 2 powi binade x"
  proof -
    have "2 powi binade x / ulp x = real_of_int (2 ^ 52)" by (simp add: ulp_scale)
    then show ?thesis using ulp_pos [of x] by (simp add: field_simps)
  qed
  ultimately show ?thesis by simp
qed

lemma round_double_upper:
  assumes "0 < x"
  shows "round_double x \<le> 2 powi (binade x + 1)"
proof -
  have "x \<le> 2 powi (binade x + 1)" using binade_upper [OF assms] by simp
  then have "x / ulp x \<le> 2 powi (binade x + 1) / ulp x"
    using ulp_pos [of x] by (simp add: divide_right_mono)
  then have "x / ulp x \<le> real_of_int (2 ^ 53)"
    by (simp add: ulp_scale)
  then have "round_half_even (x / ulp x) \<le> round_half_even (real_of_int (2 ^ 53))"
    by (rule round_half_even_mono)
  then have "round_half_even (x / ulp x) \<le> 2 ^ 53"
    by (simp only: round_half_even_of_int)
  then have "real_of_int (round_half_even (x / ulp x)) \<le> real_of_int (2 ^ 53)"
    by (simp only: of_int_le_iff)
  then have "round_double x \<le> real_of_int (2 ^ 53) * ulp x"
    unfolding round_double_def using ulp_pos [of x] by (simp only: mult_le_cancel_right_pos)
  moreover have "real_of_int (2 ^ 53) * ulp x = 2 powi (binade x + 1)"
  proof -
    have "2 powi (binade x + 1) / ulp x = real_of_int (2 ^ 53)" by (simp add: ulp_scale)
    then show ?thesis using ulp_pos [of x] by (simp add: field_simps)
  qed
  ultimately show ?thesis by simp
qed

lemma round_double_mono:
  assumes "0 \<le> x" and "x \<le> y"
  shows "round_double x \<le> round_double y"
proof (cases "x = 0")
  case True
  then show ?thesis using assms round_double_nonneg [of y] by simp
next
  case False
  then have x: "0 < x" and y: "0 < y" using assms by simp_all
  have b: "binade x \<le> binade y" using x assms(2) by (rule binade_mono)
  show ?thesis
  proof (cases "binade x = binade y")
    case True
    then have u: "ulp x = ulp y" by (simp add: ulp_def)
    have "x / ulp y \<le> y / ulp y"
      using assms(2) ulp_pos [of y] by (simp add: divide_right_mono)
    then have "round_half_even (x / ulp y) \<le> round_half_even (y / ulp y)"
      by (rule round_half_even_mono)
    then show ?thesis
      using ulp_pos [of y] by (simp add: round_double_def u)
  next
    case False
    with b have less: "binade x + 1 \<le> binade y" by simp
    have low: "- 1022 \<le> binade x" by (simp add: binade_def)
    have "round_double x \<le> 2 powi (binade x + 1)" using x by (rule round_double_upper)
    also have "\<dots> \<le> 2 powi binade y"
      using less by (intro power_int_increasing) simp_all
    also have "\<dots> \<le> round_double y"
      using y less low by (intro round_double_lower) simp_all
    finally show ?thesis .
  qed
qed

lemma round_double_eval:
  assumes "2 powi k \<le> x" and "x < 2 powi (k + 1)" and "- 1022 \<le> k"
  shows "round_double x = real_of_int (round_half_even (x / 2 powi (k - 52))) * 2 powi (k - 52)"
  using binade_eqI [OF assms] by (simp add: round_double_def ulp_def)

lemma binade_subnormal:
  assumes "0 < x" and "x < 2 powi (- 1022)"
  shows "binade x = - 1022"
proof -
  have "\<lfloor>log 2 x\<rfloor> < - 1022"
  proof (rule ccontr)
    assume "\<not> \<lfloor>log 2 x\<rfloor> < - 1022"
    then have "(2::real) powi (- 1022) \<le> 2 powi \<lfloor>log 2 x\<rfloor>"
      by (intro power_int_increasing) simp_all
    also have "\<dots> \<le> x" using assms(1) by (rule floor_log2_bounds)
    finally show False using assms(2) by simp
  qed
  then show ?thesis using assms(1) by (simp add: binade_def)
qed

lemma default_rate: "round_double 0.15 = 5404319552844595 / 2 ^ 55"
  by (subst round_double_eval [of "- 3"]) (simp_all add: round_half_even_def Let_def)

lemma default_co2_per_kwh: "round_double 0.417 = 7512004178453987 / 2 ^ 54"
  by (subst round_double_eval [of "- 2"]) (simp_all add: round_half_even_def Let_def)

lemma default_kg_per_km: "round_double 0.222 = 7998392938210001 / 2 ^ 55"
  by (subst round_double_eval [of "- 3"]) (simp_all add: round_half_even_def Let_def)

section \<open>The metrics aggregator\<close>

lemma cost_at_7: "calculate_cost_double 7 None = 4728779608739021 / 2 ^ 52"
  unfolding calculate_cost_double_def arg_or_def option.case default_rate
  by (subst round_double_eval [of 0]) (simp_all add: round_half_even_def Let_def)

lemma cost_after_7: "calculate_cost_double (7 + 1 / 2 ^ 50) None = 4728779608739021 / 2 ^ 52"
  unfolding calculate_cost_double_def arg_or_def option.case default_rate
  by (subst round_double_eval [of 0]) (simp_all add: round_half_even_def Let_def)

lemma double_7: "round_double 7 = 7"
  by (subst round_double_eval [of 2]) (simp_all add: round_half_even_def Let_def)

lemma double_after_7: "round_double (7 + 1 / 2 ^ 50) = 7 + 1 / 2 ^ 50"
  by (subst round_double_eval [of 2]) (simp_all add: round_half_even_def Let_def)

lemma co2_at_100: "calculate_co2_emissions_double (100 + 5 / 2 ^ 46) None = 2934376632208591 / 2 ^ 46"
  unfolding calculate_co2_emissions_double_def arg_or_def option.case default_co2_per_kwh
  by (subst round_double_eval [of 5]) (simp_all add: round_half_even_def Let_def)

lemma co2_after_100: "calculate_co2_emissions_double (100 + 6 / 2 ^ 46) None = 2934376632208591 / 2 ^ 46"
  unfolding calculate_co2_emissions_double_def arg_or_def option.case default_co2_per_kwh
  by (subst round_double_eval [of 5]) (simp_all add: round_half_even_def Let_def)

lemma cost_smallest: "calculate_cost_double (2 powi (- 1074)) None = 0"
proof -
  define s :: real where "s = 2 powi (- 1074)"
  define c :: real where "c = 5404319552844595 / 2 ^ 55"
  have s: "0 < s" by (simp only: s_def zero_less_power_int zero_less_numeral)
  have c: "0 < c" "c < 1" by (simp_all add: c_def)
  have pos: "0 < s * c" using s c by simp
  have "s * c < s * 1" using s c by (intro mult_strict_left_mono)
  also have "s * 1 \<le> 2 powi (- 1022)"
    unfolding s_def mult_1_right by (intro power_int_increasing) simp_all
  finally have small: "s * c < 2 powi (- 1022)" .
  have b: "binade (s * c) = - 1022" using pos small by (rule binade_subnormal)
  have e: "(- 1022 :: int) - 52 = - 1074" by simp
  have "ulp (s * c) = 2 powi (- 1074)" by (simp only: ulp_def b e)
  then have u: "ulp (s * c) = s" by (simp only: s_def)
  have "s * c / s = c" using s by simp
  moreover have "round_half_even c = 0"
    by (simp add: c_def round_half_even_def Let_def)
  ultimately have "round_double (s * c) = 0"
    by (simp add: round_double_def u)
  then show ?thesis
    unfolding calculate_cost_double_def arg_or_def option.case default_rate s_def c_def .
qed

lemma default_constants_pos:
  "0 < round_double 0.15" "0 < round_double 0.417" "0 < round_double 0.222"
  unfolding default_rate default_co2_per_kwh default_kg_per_km by simp_all

lemma km_of_energy_double:
  "calculate_equivalent_km_driven_double (calculate_co2_emissions_double e None) None =
     Some (round_double (round_double (e * round_double 0.417) / round_double 0.222))"
  using default_constants_pos(3)
  by (simp add: calculate_equivalent_km_driven_double_def calculate_co2_emissions_double_def
      arg_or_def)

text \<open>
  Claim C7, as amended. The cost is the energy times the rate, 0.15 by default; the CO2
  mass is the energy times the intensity, 0.417 by default; the equivalent distance is the
  CO2 mass divided by the intensity, 0.222 by default; each result and each default is
  rounded to the nearest double. With the defaults, the cost, the CO2 mass and the distance
  of the CO2 mass never decrease when the energy grows from zero on, and are zero at zero
  energy.
\<close>

theorem double_metrics_monotone:
  "calculate_cost_double e (Some rate) = round_double (e * rate)
   \<and> calculate_cost_double e None = round_double (e * round_double 0.15)
   \<and> calculate_co2_emissions_double e (Some intensity) = round_double (e * intensity)
   \<and> calculate_co2_emissions_double e None = round_double (e * round_double 0.417)
   \<and> (d \<noteq> 0 \<longrightarrow>
        calculate_equivalent_km_driven_double c (Some d) = Some (round_double (c / d)))
   \<and> calculate_equivalent_km_driven_double c None = Some (round_double (c / round_double 0.222))
   \<and> (0 \<le> e1 \<and> e1 \<le> e2 \<longrightarrow>
        calculate_cost_double e1 None \<le> calculate_cost_double e2 None
        \<and> calculate_co2_emissions_double e1 None \<le> calculate_co2_emissions_double e2 None
        \<and> (\<exists>k1 k2.
              calculate_equivalent_km_driven_double (calculate_co2_emissions_double e1 None) None
                = Some k1
              \<and> calculate_equivalent_km_driven_double (calculate_co2_emissions_double e2 None) None
                = Some k2
              \<and> k1 \<le> k2))
   \<and> calculate_cost_double 0 None = 0
   \<and> calculate_co2_emissions_double 0 None = 0
   \<and> calculate_equivalent_km_driven_double (calculate_co2_emissions_double 0 None) None = Some 0"
proof -
  have scaled: "round_double (x * k) \<le> round_double (y * k)" if "0 \<le> x" "x \<le> y" "0 < k" for x y k
    using that by (intro round_double_mono) (simp_all add: mult_right_mono)
  have mono: "calculate_cost_double e1 None \<le> calculate_cost_double e2 None
        \<and> calculate_co2_emissions_double e1 None \<le> calculate_co2_emissions_double e2 None
        \<and> (\<exists>k1 k2.
              calculate_equivalent_km_driven_double (calculate_co2_emissions_double e1 None) None
                = Some k1
              \<and> calculate_equivalent_km_driven_double (calculate_co2_emissions_double e2 None) None
                = Some k2
              \<and> k1 \<le> k2)"
    if h: "0 \<le> e1 \<and> e1 \<le> e2"
  proof (intro conjI)
    show "calculate_cost_double e1 None \<le> calculate_cost_double e2 None"
      using h default_constants_pos(1) by (simp add: calculate_cost_double_def arg_or_def scaled)
    have co2: "round_double (e1 * round_double 0.417) \<le> round_double (e2 * round_double 0.417)"
      using h default_constants_pos(2) by (simp add: scaled)
    then show "calculate_co2_emissions_double e1 None \<le> calculate_co2_emissions_double e2 None"
      by (simp add: calculate_co2_emissions_double_def arg_or_def)
    have "0 \<le> e1 * round_double 0.417"
      using h default_constants_pos(2) by simp
    then have nonneg: "0 \<le> round_double (e1 * round_double 0.417)"
      by (rule round_double_nonneg)
    have "round_double (round_double (e1 * round_double 0.417) / round_double 0.222)
        \<le> round_double (round_double (e2 * round_double 0.417) / round_double 0.222)"
      using nonneg co2 default_constants_pos(3)
      by (intro round_double_mono) (simp_all add: divide_right_mono)
    then show "\<exists>k1 k2.
              calculate_equivalent_km_driven_double (calculate_co2_emissions_double e1 None) None
                = Some k1
              \<and> calculate_equivalent_km_driven_double (calculate_co2_emissions_double e2 None) None
                = Some k2
              \<and> k1 \<le> k2"
      unfolding km_of_energy_double by blast
  qed
  have basics:
    "calculate_cost_double e (Some rate) = round_double (e * rate)"
    "calculate_cost_double e None = round_double (e * round_double 0.15)"
    "calculate_co2_emissions_double e (Some intensity) = round_double (e * intensity)"
    "calculate_co2_emissions_double e None = round_double (e * round_double 0.417)"
    "d \<noteq> 0 \<longrightarrow>
        calculate_equivalent_km_driven_double c (Some d) = Some (round_double (c / d))"
    "calculate_cost_double 0 None = 0"
    "calculate_co2_emissions_double 0 None = 0"
    by (simp_all add: calculate_cost_double_def calculate_co2_emissions_double_def
        calculate_equivalent_km_driven_double_def arg_or_def)
  have km_default:
    "calculate_equivalent_km_driven_double c None = Some (round_double (c / round_double 0.222))"
    using default_constants_pos(3)
    by (simp add: calculate_equivalent_km_driven_double_def arg_or_def)
  have km_zero:
    "calculate_equivalent_km_driven_double (calculate_co2_emissions_double 0 None) None = Some 0"
    by (simp add: km_of_energy_double)
  from mono basics km_default km_zero show ?thesis by blast
qed

theorem double_metrics_monotone_witness:
  "(1 / 2 :: real) \<noteq> 0 \<and> (0::real) \<le> 100 \<and> (100::real) \<le> 200
   \<and> calculate_equivalent_km_driven_double 10 (Some (1 / 2)) = Some (round_double 20)
   \<and> calculate_cost_double 100 None \<le> calculate_cost_double 200 None
   \<and> calculate_co2_emissions_double 100 None \<le> calculate_co2_emissions_double 200 None"
  using double_metrics_monotone [of 100 1 1 "1 / 2" 10 100 200]
  by simp

text \<open>
  The increase is not strict. The doubles 7 and \<open>7 + 1 / 2 ^ 50\<close>, the next double after
  7, have the same cost 1.05; \<open>100 + 5 / 2 ^ 46\<close> and \<open>100 + 6 / 2 ^ 46\<close> have the same CO2
  mass; and the smallest positive double has the cost 0 of zero energy.
\<close>

theorem double_metrics_counterexample:
  "(0::real) \<le> 7 \<and> (7::real) < 7 + 1 / 2 ^ 50
   \<and> round_double 7 = 7 \<and> round_double (7 + 1 / 2 ^ 50) = 7 + 1 / 2 ^ 50
   \<and> calculate_cost_double 7 None = calculate_cost_double (7 + 1 / 2 ^ 50) None
   \<and> (100 + 5 / 2 ^ 46 :: real) < 100 + 6 / 2 ^ 46
   \<and> calculate_co2_emissions_double (100 + 5 / 2 ^ 46) None
       = calculate_co2_emissions_double (100 + 6 / 2 ^ 46) None
   \<and> (0::real) < 2 powi (- 1074)
   \<and> calculate_cost_double (2 powi (- 1074)) None = calculate_cost_double 0 None"
proof (intro conjI)
  show "(0::real) \<le> 7" and "(7::real) < 7 + 1 / 2 ^ 50"
    and "(100 + 5 / 2 ^ 46 :: real) < 100 + 6 / 2 ^ 46"
    by simp_all
  show "round_double 7 = 7" by (rule double_7)
  show "round_double (7 + 1 / 2 ^ 50) = 7 + 1 / 2 ^ 50" by (rule double_after_7)
  show "calculate_cost_double 7 None = calculate_cost_double (7 + 1 / 2 ^ 50) None"
    by (simp only: cost_at_7 cost_after_7)
  show "calculate_co2_emissions_double (100 + 5 / 2 ^ 46) None
       = calculate_co2_emissions_double (100 + 6 / 2 ^ 46) None"
    by (simp only: co2_at_100 co2_after_100)
  show "(0::real) < 2 powi (- 1074)"
    by (simp only: zero_less_power_int zero_less_numeral)
  have "calculate_cost_double 0 None = 0"
    by (simp add: calculate_cost_double_def)
  then show "calculate_cost_double (2 powi (- 1074)) None = calculate_cost_double 0 None"
    by (simp only: cost_smallest)
qed

section \<open>Savings of MPC over RBC\<close>








section \<open>The synthetic outdoor temperature\<close>

lemma le_div_iff_int:
  fixes k f a :: int
  assumes "0 < f"
  shows "k \<le> a div f \<longleftrightarrow> k * f \<le> a"
proof
  assume "k \<le> a div f"
  then have "k * f \<le> (a div f) * f" using assms by (simp add: mult_right_mono)
  also have "\<dots> = a - a mod f" by (simp add: minus_mod_eq_div_mult)
  also have "\<dots> \<le> a" using assms by simp
  finally show "k * f \<le> a" .
next
  assume "k * f \<le> a"
  then have "(k * f) div f \<le> a div f" using assms by (rule zdiv_mono1)
  then show "k \<le> a div f" using assms by simp
qed

lemma date_range_Some:
  assumes "0 < freq"
  shows "date_range start end freq =
     Some (map (\<lambda>k. start + int k * int freq)
             [0 ..< (if end < start then 0 else Suc (nat ((end - start) div int freq)))])"
  using assms by (simp add: date_range_def)

lemma date_range_set:
  assumes "0 < freq" and "date_range start end freq = Some dates"
  shows "set dates = {t. start \<le> t \<and> t \<le> end \<and> (\<exists>k::nat. t = start + int k * int freq)}"
proof (cases "end < start")
  case True
  then have "dates = []" using assms by (simp add: date_range_def)
  moreover have "start \<le> start + int k * int freq" for k by simp
  ultimately show ?thesis using True by auto
next
  case False
  let ?n = "nat ((end - start) div int freq)"
  have f: "0 < int freq" using assms(1) by simp
  have q0: "0 \<le> (end - start) div int freq"
    using False f by (simp add: pos_imp_zdiv_nonneg_iff)
  have dates: "dates = map (\<lambda>k. start + int k * int freq) [0 ..< Suc ?n]"
    using assms False by (simp add: date_range_def)
  have bound: "k \<le> ?n \<longleftrightarrow> start + int k * int freq \<le> end" for k :: nat
  proof -
    have "k \<le> ?n \<longleftrightarrow> int k \<le> (end - start) div int freq" using q0 by linarith
    also have "\<dots> \<longleftrightarrow> int k * int freq \<le> end - start" using f by (rule le_div_iff_int)
    also have "\<dots> \<longleftrightarrow> start + int k * int freq \<le> end" by linarith
    finally show ?thesis .
  qed
  show ?thesis
  proof (rule set_eqI)
    fix t
    have "t \<in> set dates \<longleftrightarrow> (\<exists>k. k < Suc ?n \<and> t = start + int k * int freq)"
      unfolding dates set_map set_upt image_iff Bex_def atLeastLessThan_iff by auto
    also have "\<dots> \<longleftrightarrow> (\<exists>k\<le>?n. t = start + int k * int freq)"
      by (simp only: less_Suc_eq_le)
    also have "\<dots> \<longleftrightarrow> (\<exists>k::nat. start + int k * int freq \<le> end \<and> t = start + int k * int freq)"
      by (simp add: bound)
    also have "\<dots> \<longleftrightarrow> start \<le> t \<and> t \<le> end \<and> (\<exists>k::nat. t = start + int k * int freq)"
      by auto
    finally show "t \<in> set dates \<longleftrightarrow>
        t \<in> {t. start \<le> t \<and> t \<le> end \<and> (\<exists>k::nat. t = start + int k * int freq)}"
      by simp
  qed
qed

lemma date_range_ascending:
  assumes "0 < freq" and "date_range start end freq = Some dates"
  shows "sorted_wrt (<) dates"
proof -
  obtain m where dates: "dates = map (\<lambda>k. start + int k * int freq) [0 ..< m]"
    using assms by (auto simp: date_range_Some)
  show ?thesis
    unfolding dates sorted_wrt_iff_nth_less using assms(1) by simp
qed


lemma simulate_eq:
  assumes "date_range start end freq = Some dates"
  shows "simulate_outdoor_temperature start end (Some base_temp) (Some amplitude) (Some freq) =
     Some (map (\<lambda>t. (t, base_temp
                       + amplitude * sin (2 * pi * real_of_int (hour_of t - 6) / 24))) dates)"
  by (simp add: simulate_outdoor_temperature_def arg_or_def assms)

text \<open>
  Claim C8. For a positive frequency the generator returns a series whose values are
  \<open>base_temp + amplitude * sin (2 * pi * (hour - 6) / 24)\<close> at the hour of the day of their
  timestamp, and whose timestamps are, in ascending order, exactly the instants
  \<open>start + k * freq\<close> between \<open>start\<close> and \<open>end\<close>, both bounds included; the series is
  empty when \<open>start\<close> is after \<open>end\<close>. The omitted arguments stand for 40, 20 and one
  hour, and the result depends on the five arguments only.
\<close>

theorem simulated_outdoor_temperature:
  "(0 < freq \<longrightarrow>
      (\<exists>out. simulate_outdoor_temperature start end (Some base_temp) (Some amplitude) (Some freq)
              = Some out
         \<and> map snd out =
             map (\<lambda>t. base_temp + amplitude * sin (2 * pi * real_of_int (hour_of t - 6) / 24))
                 (map fst out)
         \<and> set (map fst out) =
             {t. start \<le> t \<and> t \<le> end \<and> (\<exists>k::nat. t = start + int k * int freq)}
         \<and> sorted_wrt (<) (map fst out)
         \<and> (end < start \<longrightarrow> out = [])))
   \<and> simulate_outdoor_temperature start end None None None =
       simulate_outdoor_temperature start end (Some 40) (Some 20) (Some (nat NANOS_PER_HOUR))
   \<and> (start = start' \<and> end = end' \<and> b = b' \<and> a = a' \<and> f = f' \<longrightarrow>
        simulate_outdoor_temperature start end b a f =
        simulate_outdoor_temperature start' end' b' a' f')"
proof (intro conjI impI)
  assume pos: "0 < freq"
  then obtain dates where dates: "date_range start end freq = Some dates"
    by (simp add: date_range_Some)
  define out where "out = map (\<lambda>t. (t, base_temp
                       + amplitude * sin (2 * pi * real_of_int (hour_of t - 6) / 24))) dates"
  have fst_out: "map fst out = dates"
    by (simp add: out_def comp_def)
  have "simulate_outdoor_temperature start end (Some base_temp) (Some amplitude) (Some freq)
      = Some out"
    unfolding out_def using dates by (rule simulate_eq)
  moreover have "map snd out =
      map (\<lambda>t. base_temp + amplitude * sin (2 * pi * real_of_int (hour_of t - 6) / 24))
          (map fst out)"
    unfolding fst_out by (simp add: out_def comp_def)
  moreover have "set (map fst out) =
      {t. start \<le> t \<and> t \<le> end \<and> (\<exists>k::nat. t = start + int k * int freq)}"
    unfolding fst_out using pos dates by (rule date_range_set)
  moreover have "sorted_wrt (<) (map fst out)"
    unfolding fst_out using pos dates by (rule date_range_ascending)
  moreover have "end < start \<longrightarrow> out = []"
    using pos dates by (auto simp: date_range_def out_def)
  ultimately show "\<exists>out. simulate_outdoor_temperature start end (Some base_temp) (Some amplitude)
         (Some freq) = Some out
         \<and> map snd out =
             map (\<lambda>t. base_temp + amplitude * sin (2 * pi * real_of_int (hour_of t - 6) / 24))
                 (map fst out)
         \<and> set (map fst out) =
             {t. start \<le> t \<and> t \<le> end \<and> (\<exists>k::nat. t = start + int k * int freq)}
         \<and> sorted_wrt (<) (map fst out)
         \<and> (end < start \<longrightarrow> out = [])"
    by blast
next
  show "simulate_outdoor_temperature start end None None None =
       simulate_outdoor_temperature start end (Some 40) (Some 20) (Some (nat NANOS_PER_HOUR))"
    unfolding simulate_outdoor_temperature_def arg_or_def option.case ..
next
  assume "start = start' \<and> end = end' \<and> b = b' \<and> a = a' \<and> f = f'"
  then show "simulate_outdoor_temperature start end b a f =
        simulate_outdoor_temperature start' end' b' a' f'"
    by simp
qed

theorem simulated_outdoor_temperature_witness:
  "0 < nat (6 * NANOS_PER_HOUR)
   \<and> simulate_outdoor_temperature (6 * NANOS_PER_HOUR) (12 * NANOS_PER_HOUR)
         (Some 40) (Some 20) (Some (nat (6 * NANOS_PER_HOUR)))
       = Some [(6 * NANOS_PER_HOUR, 40), (12 * NANOS_PER_HOUR, 60)]
   \<and> (\<exists>out. simulate_outdoor_temperature (6 * NANOS_PER_HOUR) (12 * NANOS_PER_HOUR)
               (Some 40) (Some 20) (Some (nat (6 * NANOS_PER_HOUR))) = Some out
         \<and> set (map fst out) =
             {t. 6 * NANOS_PER_HOUR \<le> t \<and> t \<le> 12 * NANOS_PER_HOUR
                 \<and> (\<exists>k::nat. t = 6 * NANOS_PER_HOUR + int k * int (nat (6 * NANOS_PER_HOUR)))}
         \<and> sorted_wrt (<) (map fst out))
   \<and> simulate_outdoor_temperature (12 * NANOS_PER_HOUR) (6 * NANOS_PER_HOUR)
         (Some 40) (Some 20) (Some (nat (6 * NANOS_PER_HOUR))) = Some []"
proof -
  have pos: "0 < nat (6 * NANOS_PER_HOUR)"
    by (simp add: NANOS_PER_HOUR_def)
  have dr: "date_range (6 * NANOS_PER_HOUR) (12 * NANOS_PER_HOUR) (nat (6 * NANOS_PER_HOUR))
      = Some [6 * NANOS_PER_HOUR, 12 * NANOS_PER_HOUR]"
    by (simp add: date_range_def NANOS_PER_HOUR_def)
  have h: "hour_of (6 * NANOS_PER_HOUR) = 6" "hour_of (12 * NANOS_PER_HOUR) = 12"
    by (simp_all add: hour_of_def NANOS_PER_HOUR_def)
  have val: "simulate_outdoor_temperature (6 * NANOS_PER_HOUR) (12 * NANOS_PER_HOUR)
         (Some 40) (Some 20) (Some (nat (6 * NANOS_PER_HOUR)))
       = Some [(6 * NANOS_PER_HOUR, 40), (12 * NANOS_PER_HOUR, 60)]"
    by (simp add: simulate_eq [OF dr] h)
  have emp: "simulate_outdoor_temperature (12 * NANOS_PER_HOUR) (6 * NANOS_PER_HOUR)
         (Some 40) (Some 20) (Some (nat (6 * NANOS_PER_HOUR))) = Some []"
    using simulated_outdoor_temperature [of "nat (6 * NANOS_PER_HOUR)" "12 * NANOS_PER_HOUR"
        "6 * NANOS_PER_HOUR" 40 20] pos
    by (auto simp: NANOS_PER_HOUR_def)
  show ?thesis
    using simulated_outdoor_temperature [of "nat (6 * NANOS_PER_HOUR)" "6 * NANOS_PER_HOUR"
        "12 * NANOS_PER_HOUR" 40 20] pos val emp
    by blast
qed


end
